theory Spec2Isabelle
  imports Complex_Main
begin

section \<open>Values and Python helpers\<close>

text \<open>
  Request bodies and stored entities are JSON values. A Python dict keeps its keys in
  insertion order, so an object is an association list. Numbers are represented by their
  rational value (Python's int and float behave alike in everything the handlers do with
  them: truthiness and the TypeError of a membership test or of a \<open>**\<close> unpacking).
\<close>

datatype json =
    JNull
  | JBool bool
  | JNum rat
  | JStr string
  | JArr "json list"
  | JObj "(string \<times> json) list"

type_synonym entity = "(string \<times> json) list"

datatype pyexc = TypeError | KeyError | ValueError | OverflowError

text \<open>
  \<open>abort(code, description=...)\<close> raises an HTTPException, which the registered error
  handler turns into a response with that status; any other exception leaves the view
  function unhandled and the framework answers with status 500.
\<close>

datatype http_error = HTTPException nat string | Unhandled pyexc

type_synonym response = "http_error + nat \<times> json"

definition abort :: "nat \<Rightarrow> string \<Rightarrow> response" where
  "abort code description = Inl (HTTPException code description)"

fun status_code :: "response \<Rightarrow> nat" where
  "status_code (Inl (HTTPException code description)) = code"
| "status_code (Inl (Unhandled e)) = 500"
| "status_code (Inr (code, body)) = code"

text \<open>Python truthiness, as used by \<open>if not data\<close>.\<close>

fun truthy :: "json \<Rightarrow> bool" where
  "truthy JNull = False"
| "truthy (JBool b) = b"
| "truthy (JNum x) = (x \<noteq> 0)"
| "truthy (JStr s) = (s \<noteq> [])"
| "truthy (JArr xs) = (xs \<noteq> [])"
| "truthy (JObj kvs) = (kvs \<noteq> [])"

fun is_prefix :: "string \<Rightarrow> string \<Rightarrow> bool" where
  "is_prefix [] s = True"
| "is_prefix (c # cs) [] = False"
| "is_prefix (c # cs) (d # ds) = (c = d \<and> is_prefix cs ds)"

fun is_substring :: "string \<Rightarrow> string \<Rightarrow> bool" where
  "is_substring k [] = (k = [])"
| "is_substring k (d # ds) = (is_prefix k (d # ds) \<or> is_substring k ds)"

text \<open>
  \<open>field in data\<close> for a string \<open>field\<close>: key membership for a dict, element membership
  for a list, substring test for a string, TypeError for anything else.
\<close>

fun py_in :: "string \<Rightarrow> json \<Rightarrow> pyexc + bool" where
  "py_in k (JObj kvs) = Inr (k \<in> set (map fst kvs))"
| "py_in k (JArr xs) = Inr (JStr k \<in> set xs)"
| "py_in k (JStr s) = Inr (is_substring k s)"
| "py_in k JNull = Inl TypeError"
| "py_in k (JBool b) = Inl TypeError"
| "py_in k (JNum x) = Inl TypeError"

text \<open>\<open>all(field in data for field in fields)\<close>: stops at the first False or exception.\<close>

fun py_all_in :: "string list \<Rightarrow> json \<Rightarrow> pyexc + bool" where
  "py_all_in [] data = Inr True"
| "py_all_in (f # fs) data =
     (case py_in f data of
        Inl e \<Rightarrow> Inl e
      | Inr False \<Rightarrow> Inr False
      | Inr True \<Rightarrow> py_all_in fs data)"

definition missing_fields :: "string list \<Rightarrow> json \<Rightarrow> string list" where
  "missing_fields fs data = filter (\<lambda>f. py_in f data = Inr False) fs"

fun join :: "string \<Rightarrow> string list \<Rightarrow> string" where
  "join sep [] = []"
| "join sep [x] = x"
| "join sep (x # y # ys) = x @ sep @ join sep (y # ys)"

text \<open>\<open>d[k] = v\<close> on an insertion-ordered dict: an existing key keeps its position.\<close>

fun dict_set :: "entity \<Rightarrow> string \<Rightarrow> json \<Rightarrow> entity" where
  "dict_set [] k v = [(k, v)]"
| "dict_set ((k', v') # d) k v = (if k' = k then (k, v) # d else (k', v') # dict_set d k v)"

text \<open>
  \<open>{**d, **e}\<close>: a copy of \<open>d\<close> into which the items of \<open>e\<close> are stored one after the
  other.
\<close>

fun dict_merge :: "entity \<Rightarrow> entity \<Rightarrow> entity" where
  "dict_merge d [] = d"
| "dict_merge d ((k, v) # e) = dict_merge (dict_set d k v) e"

definition digit :: "nat \<Rightarrow> char" where
  "digit n = ''0123456789'' ! n"

text \<open>\<open>str(n)\<close> for a non-negative integer: its decimal digits.\<close>

fun str :: "nat \<Rightarrow> string" where
  "str n = (if n < 10 then [digit n] else str (n div 10) @ [digit (n mod 10)])"

declare str.simps [simp del]

definition quote :: string where
  "quote = [CHR 0x27]"

section \<open>Configuration\<close>

record theme_info =
  theme_name :: string
  theme_description :: string
  entities :: "string list"

definition THEMES :: "(string \<times> theme_info) list" where
  "THEMES =
    [(''space_exploration'',
        \<lparr>theme_name = ''Space Exploration API'',
         theme_description = ''API for managing space missions and astronaut data'',
         entities = [''missions'', ''astronauts'', ''spacecraft'']\<rparr>),
     (''fantasy_rpg'',
        \<lparr>theme_name = ''Fantasy RPG API'',
         theme_description = ''API for managing characters, quests and items in a fantasy world'',
         entities = [''characters'', ''quests'', ''items'']\<rparr>),
     (''smart_city'',
        \<lparr>theme_name = ''Smart City API'',
         theme_description = ''API for managing smart city infrastructure and services'',
         entities = [''traffic_sensors'', ''public_transport'', ''energy_consumption'']\<rparr>)]"

text \<open>
  \<open>chance\<close> holds the decimal literal of the source; the code uses it only as a weight
  handed to \<open>random.choices\<close>.
\<close>

record error_type =
  chance :: rat
  error_description :: string

definition ERROR_TYPES :: "(string \<times> error_type) list" where
  "ERROR_TYPES =
    [(''timeout'', \<lparr>chance = 1 / 10, error_description = ''Server timeout simulation''\<rparr>),
     (''rate_limit'', \<lparr>chance = 15 / 100, error_description = ''Rate limiting simulation''\<rparr>),
     (''server_error'',
        \<lparr>chance = 1 / 10, error_description = ''Internal server error simulation''\<rparr>),
     (''validation_error'',
        \<lparr>chance = 2 / 10, error_description = ''Data validation error simulation''\<rparr>)]"

text \<open>
  A Python float as \<open>float(...)\<close> returns it from an environment variable: a finite
  value, an infinity or NaN. \<open>x < y\<close> for a finite \<open>x\<close> is false when \<open>y\<close> is NaN.
\<close>

datatype pyfloat = Finite rat | PosInf | NegInf | NaN

fun float_less :: "rat \<Rightarrow> pyfloat \<Rightarrow> bool" where
  "float_less x (Finite y) = (x < y)"
| "float_less x PosInf = True"
| "float_less x NegInf = False"
| "float_less x NaN = False"

record config =
  error_rate :: pyfloat
  timeout_seconds :: pyfloat

section \<open>State, requests and the ambient environment\<close>

text \<open>
  \<open>data_store\<close> is a dict of dicts of lists. Besides the store the state records the calls
  of \<open>time.sleep\<close>, in order, so that a delay is an observable effect.
\<close>

type_synonym store = "string \<rightharpoonup> (string \<rightharpoonup> entity list)"

record state =
  data_store :: store
  slept :: "rat list"

text \<open>
  What a handler reads from the request: the \<open>X-API-Token\<close> header (None when absent) and
  the result of \<open>request.get_json(silent=True)\<close> (None when the body is absent or does not
  parse; a body \<open>null\<close> parses to Python's None, here \<open>Some JNull\<close>, equally falsy).
\<close>

record request =
  token :: "string option"
  json_body :: "json option"

text \<open>
  What a handler reads from its surroundings: the configuration from the process
  environment (None when \<open>float\<close> raises ValueError on a malformed variable); what the
  random generator returns for this request, namely the value of \<open>random.random()\<close> in
  [0, 1), the element that \<open>random.choices(population, weights, k=1)\<close> selects and the
  float that \<open>random.uniform(a, b)\<close> returns, the latter two as functions of the arguments
  the code passes; whether converting a finite duration to the clock type of the platform
  overflows in \<open>time.sleep\<close>; and the clock as \<open>time.strftime\<close> formats it.
\<close>

record env =
  get_config :: "config option"
  draw1 :: rat
  choices :: "string list \<Rightarrow> rat list \<Rightarrow> string"
  uniform :: "rat \<Rightarrow> pyfloat \<Rightarrow> pyfloat"
  sleep_overflow :: "rat \<Rightarrow> bool"
  clock :: string

definition lookup2 :: "store \<Rightarrow> string \<Rightarrow> string \<Rightarrow> entity list option" where
  "lookup2 st theme_id entity_type =
     (case st theme_id of None \<Rightarrow> None | Some m \<Rightarrow> m entity_type)"

definition store2 :: "store \<Rightarrow> string \<Rightarrow> string \<Rightarrow> entity list \<Rightarrow> store" where
  "store2 st theme_id entity_type coll =
     (case st theme_id of
        None \<Rightarrow> st
      | Some m \<Rightarrow> st(theme_id \<mapsto> m(entity_type \<mapsto> coll)))"

definition sleep :: "rat \<Rightarrow> state \<Rightarrow> state" where
  "sleep d s = s\<lparr>slept := slept s @ [d]\<rparr>"

text \<open>
  \<open>time.sleep(d)\<close> for a float that is computed at run time: it raises for NaN, for an
  infinity or a duration beyond the range of the clock type, and for a negative duration;
  otherwise it sleeps.
\<close>

definition time_sleep :: "env \<Rightarrow> pyfloat \<Rightarrow> state \<Rightarrow> pyexc + state" where
  "time_sleep ev d s =
     (case d of
        NaN \<Rightarrow> Inl ValueError
      | PosInf \<Rightarrow> Inl OverflowError
      | NegInf \<Rightarrow> Inl OverflowError
      | Finite x \<Rightarrow>
          if sleep_overflow ev x then Inl OverflowError
          else if x < 0 then Inl ValueError
          else Inr (sleep x s))"

section \<open>Middleware\<close>

definition token_required ::
  "request \<Rightarrow> (state \<Rightarrow> response \<times> state) \<Rightarrow> state \<Rightarrow> response \<times> state" where
  "token_required req f s =
     (case token req of
        None \<Rightarrow> (abort 401 ''API token is missing'', s)
      | Some t \<Rightarrow>
          if t = [] then (abort 401 ''API token is missing'', s)
          else if t \<noteq> ''student_test_token'' then (abort 403 ''Invalid API token'', s)
          else f s)"

definition simulate_errors ::
  "env \<Rightarrow> (state \<Rightarrow> response \<times> state) \<Rightarrow> state \<Rightarrow> response \<times> state" where
  "simulate_errors ev f s =
     (case get_config ev of
        None \<Rightarrow> (Inl (Unhandled ValueError), s)
      | Some cfg \<Rightarrow>
          if float_less (draw1 ev) (error_rate cfg) then
            (let error_type =
                   choices ev (map fst ERROR_TYPES) (map (\<lambda>t. chance (snd t)) ERROR_TYPES)
             in if error_type = ''timeout'' then
                  (case time_sleep ev (uniform ev 1 (timeout_seconds cfg)) s of
                     Inl e \<Rightarrow> (Inl (Unhandled e), s)
                   | Inr s' \<Rightarrow> f s')
                else if error_type = ''rate_limit'' then
                  (abort 429 ''Rate limit exceeded. Try again later.'', s)
                else if error_type = ''server_error'' then
                  (abort 500 ''Internal server error occurred'', s)
                else if error_type = ''validation_error'' then
                  (abort 422 ''Invalid data format or content'', s)
                else f s)
          else f s)"

section \<open>Entity handlers\<close>

definition theme_not_found :: "string \<Rightarrow> string" where
  "theme_not_found theme_id = ''Theme '' @ quote @ theme_id @ quote @ '' not found''"

definition entity_type_not_found :: "string \<Rightarrow> string \<Rightarrow> string" where
  "entity_type_not_found entity_type theme_id =
     ''Entity type '' @ quote @ entity_type @ quote @ '' not found in theme '' @ quote
       @ theme_id @ quote"

definition entity_not_found :: "string \<Rightarrow> string" where
  "entity_not_found entity_id = ''Entity with ID '' @ quote @ entity_id @ quote @ '' not found''"

text \<open>
  The scan \<open>for i, entity in enumerate(collection): if entity["id"] == entity_id\<close>:
  the first record whose \<open>id\<close> is the string \<open>entity_id\<close>, with its index; a record
  without the key \<open>id\<close> raises KeyError when the scan reaches it.
\<close>

fun find_entity :: "entity list \<Rightarrow> string \<Rightarrow> nat \<Rightarrow> pyexc + (nat \<times> entity) option" where
  "find_entity [] entity_id i = Inr None"
| "find_entity (entity # rest) entity_id i =
     (case map_of entity ''id'' of
        None \<Rightarrow> Inl KeyError
      | Some v \<Rightarrow>
          if v = JStr entity_id then Inr (Some (i, entity))
          else find_entity rest entity_id (Suc i))"

definition list_entities :: "string \<Rightarrow> string \<Rightarrow> state \<Rightarrow> response \<times> state" where
  "list_entities theme_id entity_type s =
     (case map_of THEMES theme_id of
        None \<Rightarrow> (abort 404 (theme_not_found theme_id), s)
      | Some info \<Rightarrow>
          if entity_type \<notin> set (entities info) then
            (abort 404 (entity_type_not_found entity_type theme_id), s)
          else
            (case lookup2 (data_store s) theme_id entity_type of
               None \<Rightarrow> (Inl (Unhandled KeyError), s)
             | Some coll \<Rightarrow>
                 (Inr (200, JObj [(''theme'', JStr theme_id),
                                  (''entity_type'', JStr entity_type),
                                  (''items'', JArr (map JObj coll))]), s)))"

text \<open>
  \<open>required_fields\<close> is a Python set; the order in which it is iterated only decides the
  order of the names in the message about missing fields.
\<close>

definition required_fields :: "string list" where
  "required_fields = [''name'', ''description'']"

definition create_entity ::
  "request \<Rightarrow> env \<Rightarrow> string \<Rightarrow> string \<Rightarrow> state \<Rightarrow> response \<times> state" where
  "create_entity req ev theme_id entity_type s =
     (case map_of THEMES theme_id of
        None \<Rightarrow> (abort 404 (theme_not_found theme_id), s)
      | Some info \<Rightarrow>
          if entity_type \<notin> set (entities info) then
            (abort 404 (entity_type_not_found entity_type theme_id), s)
          else
            (case json_body req of
               None \<Rightarrow> (abort 400 ''Invalid JSON data'', s)
             | Some data \<Rightarrow>
                 if \<not> truthy data then (abort 400 ''Invalid JSON data'', s)
                 else
                   (case py_all_in required_fields data of
                      Inl e \<Rightarrow> (Inl (Unhandled e), s)
                    | Inr False \<Rightarrow>
                        (abort 400 (''Missing required fields: ''
                           @ join '', '' (missing_fields required_fields data)), s)
                    | Inr True \<Rightarrow>
                        (case lookup2 (data_store s) theme_id entity_type of
                           None \<Rightarrow> (Inl (Unhandled KeyError), s)
                         | Some coll \<Rightarrow>
                             (case data of
                                JObj pairs \<Rightarrow>
                                  (let new_entity =
                                         dict_set
                                           (dict_merge
                                              (dict_set [] ''id'' (JStr (str (length coll + 1))))
                                              pairs)
                                           ''created_at'' (JStr (clock ev))
                                   in (Inr (201, JObj new_entity),
                                       s\<lparr>data_store :=
                                            store2 (data_store s) theme_id entity_type
                                              (coll @ [new_entity])\<rparr>))
                              | _ \<Rightarrow> (Inl (Unhandled TypeError), s))))))"

definition get_entity :: "string \<Rightarrow> string \<Rightarrow> string \<Rightarrow> state \<Rightarrow> response \<times> state" where
  "get_entity theme_id entity_type entity_id s =
     (case map_of THEMES theme_id of
        None \<Rightarrow> (abort 404 (theme_not_found theme_id), s)
      | Some info \<Rightarrow>
          if entity_type \<notin> set (entities info) then
            (abort 404 (entity_type_not_found entity_type theme_id), s)
          else
            (case lookup2 (data_store s) theme_id entity_type of
               None \<Rightarrow> (Inl (Unhandled KeyError), s)
             | Some coll \<Rightarrow>
                 (case find_entity coll entity_id 0 of
                    Inl e \<Rightarrow> (Inl (Unhandled e), s)
                  | Inr (Some (i, entity)) \<Rightarrow> (Inr (200, JObj entity), s)
                  | Inr None \<Rightarrow> (abort 404 (entity_not_found entity_id), s))))"

definition update_entity ::
  "request \<Rightarrow> env \<Rightarrow> string \<Rightarrow> string \<Rightarrow> string \<Rightarrow> state \<Rightarrow> response \<times> state" where
  "update_entity req ev theme_id entity_type entity_id s =
     (case map_of THEMES theme_id of
        None \<Rightarrow> (abort 404 (theme_not_found theme_id), s)
      | Some info \<Rightarrow>
          if entity_type \<notin> set (entities info) then
            (abort 404 (entity_type_not_found entity_type theme_id), s)
          else
            (case json_body req of
               None \<Rightarrow> (abort 400 ''Invalid JSON data'', s)
             | Some data \<Rightarrow>
                 if \<not> truthy data then (abort 400 ''Invalid JSON data'', s)
                 else
                   (case lookup2 (data_store s) theme_id entity_type of
                      None \<Rightarrow> (Inl (Unhandled KeyError), s)
                    | Some coll \<Rightarrow>
                        (case find_entity coll entity_id 0 of
                           Inl e \<Rightarrow> (Inl (Unhandled e), s)
                         | Inr None \<Rightarrow> (abort 404 (entity_not_found entity_id), s)
                         | Inr (Some (i, entity)) \<Rightarrow>
                             (case data of
                                JObj pairs \<Rightarrow>
                                  (case map_of entity ''created_at'' of
                                     None \<Rightarrow> (Inl (Unhandled KeyError), s)
                                   | Some created \<Rightarrow>
                                       (let updated_entity =
                                              dict_set
                                                (dict_set
                                                   (dict_set (dict_merge entity pairs)
                                                      ''id'' (JStr entity_id))
                                                   ''created_at'' created)
                                                ''updated_at'' (JStr (clock ev))
                                        in (Inr (200, JObj updated_entity),
                                            s\<lparr>data_store :=
                                                 store2 (data_store s) theme_id entity_type
                                                   (coll[i := updated_entity])\<rparr>)))
                              | _ \<Rightarrow> (Inl (Unhandled TypeError), s))))))"

definition delete_entity :: "string \<Rightarrow> string \<Rightarrow> string \<Rightarrow> state \<Rightarrow> response \<times> state" where
  "delete_entity theme_id entity_type entity_id s =
     (case map_of THEMES theme_id of
        None \<Rightarrow> (abort 404 (theme_not_found theme_id), s)
      | Some info \<Rightarrow>
          if entity_type \<notin> set (entities info) then
            (abort 404 (entity_type_not_found entity_type theme_id), s)
          else
            (case lookup2 (data_store s) theme_id entity_type of
               None \<Rightarrow> (Inl (Unhandled KeyError), s)
             | Some coll \<Rightarrow>
                 (case find_entity coll entity_id 0 of
                    Inl e \<Rightarrow> (Inl (Unhandled e), s)
                  | Inr None \<Rightarrow> (abort 404 (entity_not_found entity_id), s)
                  | Inr (Some (i, deleted)) \<Rightarrow>
                      (Inr (200, JObj [(''message'',
                                         JStr (''Entity '' @ quote @ entity_id @ quote
                                                 @ '' deleted successfully'')),
                                        (''deleted'', JObj deleted)]),
                       s\<lparr>data_store :=
                            store2 (data_store s) theme_id entity_type
                              (take i coll @ drop (Suc i) coll)\<rparr>))))"

text \<open>
  The five entity routes, each with its decorators in the order the source applies them:
  \<open>token_required\<close> outermost, then \<open>simulate_errors\<close>, then the view function.
\<close>

datatype endpoint =
    GET_list
  | POST_create
  | GET_entity string
  | PUT_entity string
  | DELETE_entity string

fun view :: "endpoint \<Rightarrow> request \<Rightarrow> env \<Rightarrow> string \<Rightarrow> string \<Rightarrow> state \<Rightarrow> response \<times> state" where
  "view GET_list req ev theme_id entity_type = list_entities theme_id entity_type"
| "view POST_create req ev theme_id entity_type = create_entity req ev theme_id entity_type"
| "view (GET_entity entity_id) req ev theme_id entity_type =
     get_entity theme_id entity_type entity_id"
| "view (PUT_entity entity_id) req ev theme_id entity_type =
     update_entity req ev theme_id entity_type entity_id"
| "view (DELETE_entity entity_id) req ev theme_id entity_type =
     delete_entity theme_id entity_type entity_id"

definition route ::
  "endpoint \<Rightarrow> request \<Rightarrow> env \<Rightarrow> string \<Rightarrow> string \<Rightarrow> state \<Rightarrow> response \<times> state" where
  "route ep req ev theme_id entity_type =
     token_required req (simulate_errors ev (view ep req ev theme_id entity_type))"

section \<open>Error-test endpoint\<close>

definition test_errors :: "string option \<Rightarrow> state \<Rightarrow> response \<times> state" where
  "test_errors arg s =
     (case arg of
        None \<Rightarrow>
          (Inr (200, JObj [(''available_errors'',
                   JObj (map (\<lambda>t. (fst t, JStr (error_description (snd t)))) ERROR_TYPES))]), s)
      | Some error_type \<Rightarrow>
          if error_type = [] \<or> error_type \<notin> set (map fst ERROR_TYPES) then
            (Inr (200, JObj [(''available_errors'',
                     JObj (map (\<lambda>t. (fst t, JStr (error_description (snd t)))) ERROR_TYPES))]), s)
          else if error_type = ''timeout'' then
            (Inr (200, JObj [(''message'', JStr ''Response after timeout'')]), sleep 3 s)
          else if error_type = ''rate_limit'' then
            (abort 429 ''Rate limit exceeded. Try again later.'', s)
          else if error_type = ''server_error'' then
            (abort 500 ''Internal server error occurred'', s)
          else if error_type = ''validation_error'' then
            (abort 422 ''Invalid data format or content'', s)
          else (Inl (Unhandled TypeError), s))"

section \<open>Initial contents of the store\<close>

text \<open>At import time every declared (theme, entity type) pair gets an empty list.\<close>

definition empty_store :: store where
  "empty_store =
     map_of (map (\<lambda>(theme, info). (theme, map_of (map (\<lambda>entity. (entity, [])) (entities info))))
               THEMES)"

definition init_sample_data :: "store \<Rightarrow> store" where
  "init_sample_data st =
     (let st1 = store2 st ''space_exploration'' ''missions''
            [[(''id'', JStr ''1''), (''name'', JStr ''Mars Rover Mission''),
              (''description'', JStr ''Explore the surface of Mars''),
              (''status'', JStr ''in-progress''),
              (''created_at'', JStr ''2023-01-15 10:30:00'')],
             [(''id'', JStr ''2''), (''name'', JStr ''Jupiter Orbital''),
              (''description'', JStr (''Study Jupiter'' @ quote @ ''s atmosphere'')),
              (''status'', JStr ''planned''),
              (''created_at'', JStr ''2023-02-20 14:45:00'')]];
          st2 = store2 st1 ''space_exploration'' ''astronauts''
            [[(''id'', JStr ''1''), (''name'', JStr ''Dr. Sarah Chen''),
              (''description'', JStr ''Astrophysicist and mission specialist''),
              (''specialty'', JStr ''Planetary geology''),
              (''created_at'', JStr ''2023-01-10 09:20:00'')]];
          st3 = store2 st2 ''fantasy_rpg'' ''characters''
            [[(''id'', JStr ''1''), (''name'', JStr ''Elindra''),
              (''description'', JStr ''Elven ranger from the western forests''),
              (''class'', JStr ''Ranger''), (''level'', JNum 5),
              (''created_at'', JStr ''2023-03-05 11:15:00'')]];
          st4 = store2 st3 ''fantasy_rpg'' ''quests''
            [[(''id'', JStr ''1''), (''name'', JStr ''The Lost Artifact''),
              (''description'', JStr ''Recover an ancient artifact from the ruins''),
              (''difficulty'', JStr ''Medium''), (''reward'', JStr ''500 gold''),
              (''created_at'', JStr ''2023-03-10 16:20:00'')]];
          st5 = store2 st4 ''smart_city'' ''traffic_sensors''
            [[(''id'', JStr ''1''), (''name'', JStr ''Downtown Junction A''),
              (''description'', JStr ''Main intersection traffic monitor''),
              (''status'', JStr ''active''),
              (''created_at'', JStr ''2023-04-12 08:30:00'')]]
      in store2 st5 ''smart_city'' ''public_transport''
            [[(''id'', JStr ''1''), (''name'', JStr ''Metro Line 1''),
              (''description'', JStr ''North-South metro connection''),
              (''status'', JStr ''operational''), (''capacity'', JNum 1200),
              (''created_at'', JStr ''2023-04-15 13:45:00'')]])"

definition initial_state :: state where
  "initial_state = \<lparr>data_store = init_sample_data empty_store, slept = []\<rparr>"

section \<open>Predicates used in the statements\<close>

text \<open>
  The two checks every view function starts with: the theme is a key of \<open>THEMES\<close> and
  the entity type is one of its entities.
\<close>

definition valid_target :: "string \<Rightarrow> string \<Rightarrow> bool" where
  "valid_target theme_id entity_type =
     (case map_of THEMES theme_id of None \<Rightarrow> False | Some info \<Rightarrow> entity_type \<in> set (entities info))"

text \<open>The body the error-test endpoint answers with when no known kind is asked for.\<close>

definition catalog :: json where
  "catalog =
     JObj [(''available_errors'',
        JObj [(''timeout'', JStr ''Server timeout simulation''),
              (''rate_limit'', JStr ''Rate limiting simulation''),
              (''server_error'', JStr ''Internal server error simulation''),
              (''validation_error'', JStr ''Data validation error simulation'')])]"

section \<open>Example inputs\<close>

text \<open>
  A request carrying the right token, and surroundings in which the fault injector lets
  the request pass (the first draw, 0.5, is not below the default error rate 0.2).
\<close>

definition authorized :: "json option \<Rightarrow> request" where
  "authorized body = \<lparr>token = Some ''student_test_token'', json_body = body\<rparr>"

definition quiet_env :: env where
  "quiet_env =
     \<lparr>get_config = Some \<lparr>error_rate = Finite (1 / 5), timeout_seconds = Finite 2\<rparr>,
      draw1 = 1 / 2,
      choices = (\<lambda>population weights. ''timeout''),
      uniform = (\<lambda>a b. Finite (3 / 2)),
      sleep_overflow = (\<lambda>x. x < - 9223372036 \<or> 9223372036 < x),
      clock = ''2024-01-01 00:00:00''\<rparr>"

text \<open>
  Surroundings in which a fault is injected: the first draw, 0.1, is below the error rate
  0.2; the kind selected, the configured \<open>TIMEOUT_SECONDS\<close> and the float returned by
  \<open>random.uniform\<close> are the arguments.
\<close>

definition fault_env :: "string \<Rightarrow> pyfloat \<Rightarrow> pyfloat \<Rightarrow> env" where
  "fault_env kind timeout d =
     quiet_env\<lparr>get_config := Some \<lparr>error_rate = Finite (1 / 5), timeout_seconds = timeout\<rparr>,
       draw1 := 1 / 10,
       choices := (\<lambda>population weights. kind),
       uniform := (\<lambda>a b. d)\<rparr>"

text \<open>
  A run of three requests on the seeded missions (ids 1 and 2): delete mission 1, create
  a mission, delete mission 2. Each definition is the state the request leaves behind.
\<close>

definition after_delete_1 :: state where
  "after_delete_1 =
     snd (route (DELETE_entity ''1'') (authorized None) quiet_env
            ''space_exploration'' ''missions'' initial_state)"

definition after_create :: state where
  "after_create =
     snd (route POST_create
            (authorized (Some (JObj [(''name'', JStr ''Europa Lander''),
                                     (''description'', JStr ''Land on Europa'')])))
            quiet_env ''space_exploration'' ''missions'' after_delete_1)"

definition after_delete_2 :: state where
  "after_delete_2 =
     snd (route (DELETE_entity ''2'') (authorized None) quiet_env
            ''space_exploration'' ''missions'' after_create)"

section \<open>Properties\<close>

subsection \<open>Auxiliary facts\<close>

lemma token_required_missing:
  "token req = None \<or> token req = Some [] \<Longrightarrow>
     token_required req f s = (abort 401 ''API token is missing'', s)"
  by (auto simp: token_required_def)

lemma token_required_invalid:
  "token req = Some t \<Longrightarrow> t \<noteq> [] \<Longrightarrow> t \<noteq> ''student_test_token'' \<Longrightarrow>
     token_required req f s = (abort 403 ''Invalid API token'', s)"
  by (simp add: token_required_def)

lemma token_required_valid:
  "token req = Some ''student_test_token'' \<Longrightarrow> token_required req f s = f s"
  by (simp add: token_required_def)

lemma status_code_abort [simp]: "status_code (abort code d) = code"
  by (simp add: abort_def)

lemma view_invalid_target:
  "\<not> valid_target theme_id entity_type \<Longrightarrow>
     status_code (fst (view ep req ev theme_id entity_type s)) = 404
     \<and> snd (view ep req ev theme_id entity_type s) = s"
  by (cases ep)
     (auto simp: valid_target_def list_entities_def create_entity_def get_entity_def
        update_entity_def delete_entity_def split: option.splits)

lemma simulate_errors_cases:
  "simulate_errors ev f s = f s
   \<or> (\<exists>d. simulate_errors ev f s = f (sleep d s))
   \<or> (\<exists>c. c \<in> {429, 500, 422} \<and> status_code (fst (simulate_errors ev f s)) = c \<and> snd (simulate_errors ev f s) = s)"
  by (auto simp: simulate_errors_def time_sleep_def Let_def split: option.splits pyfloat.splits)

subsection \<open>Order of authentication and validation\<close>

text \<open>
  C1, as stated: the theme and entity type are validated (404) before the token is looked
  at, so that a request without a valid token to an unknown theme gets 404. The source
  wraps every view function in \<open>token_required\<close>, which runs first: a list request without
  a token to a theme that does not exist is answered 401.
\<close>

theorem auth_consulted_first_counterexample:
  "status_code (fst (route GET_list \<lparr>token = None, json_body = None\<rparr>
       quiet_env
       ''unknown_theme'' ''missions'' initial_state)) = 401
   \<and> map_of THEMES ''unknown_theme'' = None"
  by (simp add: route_def token_required_def THEMES_def)

text \<open>
  C1, amended: on every entity route the token is checked first, whatever the theme and
  entity type are. For a theme or entity type that does not exist, a missing or empty
  token gives 401 and a wrong token gives 403, with the state untouched; with the right
  token the answer is 404 or a status injected by \<open>simulate_errors\<close> (429, 500, 422), the
  store is unchanged, and the answer is 404 whenever the first random draw is not below
  the configured error rate.
\<close>

theorem auth_consulted_first:
  assumes "\<not> valid_target theme_id entity_type"
  shows "(token req = None \<or> token req = Some [] \<longrightarrow>
            route ep req ev theme_id entity_type s = (abort 401 ''API token is missing'', s))
       \<and> (\<forall>t. token req = Some t \<and> t \<noteq> [] \<and> t \<noteq> ''student_test_token'' \<longrightarrow>
            route ep req ev theme_id entity_type s = (abort 403 ''Invalid API token'', s))
       \<and> (token req = Some ''student_test_token'' \<longrightarrow>
            status_code (fst (route ep req ev theme_id entity_type s)) \<in> {404, 429, 500, 422}
            \<and> data_store (snd (route ep req ev theme_id entity_type s)) = data_store s)
       \<and> (\<forall>cfg. token req = Some ''student_test_token'' \<and> get_config ev = Some cfg
              \<and> \<not> float_less (draw1 ev) (error_rate cfg) \<longrightarrow>
            status_code (fst (route ep req ev theme_id entity_type s)) = 404)"
proof (intro conjI allI impI)
  assume "token req = None \<or> token req = Some []"
  then show "route ep req ev theme_id entity_type s = (abort 401 ''API token is missing'', s)"
    unfolding route_def by (rule token_required_missing)
next
  fix t assume "token req = Some t \<and> t \<noteq> [] \<and> t \<noteq> ''student_test_token''"
  then show "route ep req ev theme_id entity_type s = (abort 403 ''Invalid API token'', s)"
    unfolding route_def by (simp add: token_required_invalid)
next
  assume tok: "token req = Some ''student_test_token''"
  let ?v = "view ep req ev theme_id entity_type"
  have r: "route ep req ev theme_id entity_type s = simulate_errors ev ?v s"
    unfolding route_def using tok by (rule token_required_valid)
  have v: "\<And>s'. status_code (fst (?v s')) = 404 \<and> snd (?v s') = s'"
    using assms by (rule view_invalid_target)
  from simulate_errors_cases [of ev ?v s]
  show "status_code (fst (route ep req ev theme_id entity_type s)) \<in> {404, 429, 500, 422}"
    unfolding r using v by (auto simp: sleep_def)
  from simulate_errors_cases [of ev ?v s]
  show "data_store (snd (route ep req ev theme_id entity_type s)) = data_store s"
    unfolding r using v by (auto simp: sleep_def)
next
  fix cfg
  assume a: "token req = Some ''student_test_token'' \<and> get_config ev = Some cfg
              \<and> \<not> float_less (draw1 ev) (error_rate cfg)"
  then have "route ep req ev theme_id entity_type s = view ep req ev theme_id entity_type s"
    by (simp add: route_def token_required_valid simulate_errors_def)
  then show "status_code (fst (route ep req ev theme_id entity_type s)) = 404"
    using view_invalid_target [OF assms] by simp
qed

theorem auth_consulted_first_witness:
  "\<not> valid_target ''unknown_theme'' ''missions''
   \<and> route (DELETE_entity ''1'') \<lparr>token = None, json_body = None\<rparr>
       quiet_env
       ''unknown_theme'' ''missions'' initial_state
     = (abort 401 ''API token is missing'', initial_state)
   \<and> route (DELETE_entity ''1'') \<lparr>token = Some ''guess'', json_body = None\<rparr>
       quiet_env
       ''unknown_theme'' ''missions'' initial_state
     = (abort 403 ''Invalid API token'', initial_state)
   \<and> status_code (fst (route (DELETE_entity ''1'')
       \<lparr>token = Some ''student_test_token'', json_body = None\<rparr>
       quiet_env
       ''unknown_theme'' ''missions'' initial_state)) = 404"
proof -
  have h: "\<not> valid_target ''unknown_theme'' ''missions''"
    by (simp add: valid_target_def THEMES_def)
  show ?thesis
    using h
      auth_consulted_first [OF h, of "\<lparr>token = None, json_body = None\<rparr>" "DELETE_entity ''1''"
        quiet_env initial_state]
      auth_consulted_first [OF h, of "\<lparr>token = Some ''guess'', json_body = None\<rparr>"
        "DELETE_entity ''1''"
        quiet_env initial_state]
      auth_consulted_first [OF h, of "\<lparr>token = Some ''student_test_token'', json_body = None\<rparr>"
        "DELETE_entity ''1''"
        quiet_env initial_state]
    by (simp add: quiet_env_def)
qed

subsection \<open>The token check\<close>

text \<open>
  C6, as stated: a token that is supplied but differs from the secret gets 403. The source
  tests \<open>if not token\<close> first, and an \<open>X-API-Token\<close> header with an empty value is falsy:
  it is answered 401, on a valid theme and entity type.
\<close>

theorem token_gate_counterexample:
  "status_code (fst (route GET_list \<lparr>token = Some [], json_body = None\<rparr>
       quiet_env
       ''smart_city'' ''traffic_sensors'' initial_state)) = 401
   \<and> valid_target ''smart_city'' ''traffic_sensors''
   \<and> [] \<noteq> ''student_test_token''"
  by (simp add: route_def token_required_def valid_target_def THEMES_def)

text \<open>
  C6, amended: on every entity route, and for \<open>token_required\<close> around any function, a
  missing header or an empty header value gives 401; a non-empty token different from
  \<open>student_test_token\<close> gives 403; the token \<open>student_test_token\<close> is never rejected: the
  request goes on to \<open>simulate_errors\<close> and the view function.
\<close>

theorem token_gate:
  "(token req = None \<or> token req = Some [] \<longrightarrow>
      status_code (fst (route ep req ev theme_id entity_type s)) = 401
      \<and> token_required req f s = (abort 401 ''API token is missing'', s))
   \<and> (\<forall>t. token req = Some t \<and> t \<noteq> [] \<and> t \<noteq> ''student_test_token'' \<longrightarrow>
      status_code (fst (route ep req ev theme_id entity_type s)) = 403
      \<and> token_required req f s = (abort 403 ''Invalid API token'', s))
   \<and> (token req = Some ''student_test_token'' \<longrightarrow>
      route ep req ev theme_id entity_type s
        = simulate_errors ev (view ep req ev theme_id entity_type) s
      \<and> token_required req f s = f s)"
  by (auto simp: route_def token_required_missing token_required_invalid token_required_valid)

theorem token_gate_witness:
  "status_code (fst (route GET_list \<lparr>token = None, json_body = None\<rparr>
       quiet_env
       ''smart_city'' ''traffic_sensors'' initial_state)) = 401
   \<and> status_code (fst (route GET_list \<lparr>token = Some ''guess'', json_body = None\<rparr>
       quiet_env
       ''smart_city'' ''traffic_sensors'' initial_state)) = 403
   \<and> token_required \<lparr>token = Some ''student_test_token'', json_body = None\<rparr>
        (list_entities ''smart_city'' ''traffic_sensors'') initial_state
      = list_entities ''smart_city'' ''traffic_sensors'' initial_state"
  using
    token_gate [of "\<lparr>token = None, json_body = None\<rparr>" GET_list
      quiet_env "''smart_city''" "''traffic_sensors''"
      initial_state "list_entities ''smart_city'' ''traffic_sensors''"]
    token_gate [of "\<lparr>token = Some ''guess'', json_body = None\<rparr>" GET_list
      quiet_env "''smart_city''" "''traffic_sensors''"
      initial_state "list_entities ''smart_city'' ''traffic_sensors''"]
    token_gate [of "\<lparr>token = Some ''student_test_token'', json_body = None\<rparr>" GET_list
      quiet_env "''smart_city''" "''traffic_sensors''"
      initial_state "list_entities ''smart_city'' ''traffic_sensors''"]
  by simp

subsection \<open>The fault injector\<close>

text \<open>
  C7, as stated: once the first draw is below the error rate and the kind selected is
  \<open>timeout\<close>, the request is delayed and then goes on. The source passes the float drawn
  by \<open>random.uniform(1.0, timeout_seconds)\<close> to \<open>time.sleep\<close>, which raises for a negative
  duration: with \<open>TIMEOUT_SECONDS=-5\<close> and the duration -2 drawn, the request ends with an
  unhandled ValueError (status 500), nothing is slept and the view function, which would
  answer 200, is not run.
\<close>

theorem simulate_errors_by_draws_counterexample:
  "simulate_errors (fault_env ''timeout'' (Finite (- 5)) (Finite (- 2)))
     (list_entities ''smart_city'' ''traffic_sensors'') initial_state
     = (Inl (Unhandled ValueError), initial_state)
   \<and> status_code (fst (simulate_errors (fault_env ''timeout'' (Finite (- 5)) (Finite (- 2)))
        (list_entities ''smart_city'' ''traffic_sensors'') initial_state)) = 500
   \<and> status_code (fst (list_entities ''smart_city'' ''traffic_sensors'' initial_state)) = 200"
  by (simp add: simulate_errors_def fault_env_def quiet_env_def ERROR_TYPES_def time_sleep_def
        list_entities_def THEMES_def initial_state_def init_sample_data_def empty_store_def
        lookup2_def store2_def)

text \<open>
  C7, amended: \<open>simulate_errors\<close> as a function of what the random generator returns.
  With a configuration that parses: if the first draw is not below the error rate, the
  wrapped function runs on the unchanged state. Otherwise the kind is what
  \<open>random.choices\<close> selects among \<open>timeout\<close>, \<open>rate_limit\<close>, \<open>server_error\<close>,
  \<open>validation_error\<close> with the weights 0.1, 0.15, 0.1, 0.2. For \<open>rate_limit\<close>,
  \<open>server_error\<close> and \<open>validation_error\<close> the request ends with 429, 500 and 422 and
  their messages, the state unchanged. For \<open>timeout\<close> the duration is what
  \<open>random.uniform(1.0, timeout_seconds)\<close> returns: if it is finite, not negative and
  within the range of the clock, it is slept and the wrapped function runs; otherwise the
  request ends with the exception of \<open>time.sleep\<close> (status 500), the state unchanged and
  the wrapped function not run.
\<close>

theorem simulate_errors_by_draws:
  "(get_config ev = None \<longrightarrow> simulate_errors ev f s = (Inl (Unhandled ValueError), s))
   \<and> (\<forall>cfg. get_config ev = Some cfg \<longrightarrow>
        simulate_errors ev f s =
          (if \<not> float_less (draw1 ev) (error_rate cfg) then f s
           else if choices ev [''timeout'', ''rate_limit'', ''server_error'', ''validation_error'']
                     [1 / 10, 15 / 100, 1 / 10, 2 / 10] = ''timeout'' then
             (case uniform ev 1 (timeout_seconds cfg) of
                Finite d \<Rightarrow>
                  if sleep_overflow ev d then (Inl (Unhandled OverflowError), s)
                  else if d < 0 then (Inl (Unhandled ValueError), s)
                  else f (s\<lparr>slept := slept s @ [d]\<rparr>)
              | PosInf \<Rightarrow> (Inl (Unhandled OverflowError), s)
              | NegInf \<Rightarrow> (Inl (Unhandled OverflowError), s)
              | NaN \<Rightarrow> (Inl (Unhandled ValueError), s))
           else if choices ev [''timeout'', ''rate_limit'', ''server_error'', ''validation_error'']
                     [1 / 10, 15 / 100, 1 / 10, 2 / 10] = ''rate_limit'' then
             (abort 429 ''Rate limit exceeded. Try again later.'', s)
           else if choices ev [''timeout'', ''rate_limit'', ''server_error'', ''validation_error'']
                     [1 / 10, 15 / 100, 1 / 10, 2 / 10] = ''server_error'' then
             (abort 500 ''Internal server error occurred'', s)
           else if choices ev [''timeout'', ''rate_limit'', ''server_error'', ''validation_error'']
                     [1 / 10, 15 / 100, 1 / 10, 2 / 10] = ''validation_error'' then
             (abort 422 ''Invalid data format or content'', s)
           else f s))"
  by (simp add: simulate_errors_def ERROR_TYPES_def time_sleep_def sleep_def Let_def
        split: pyfloat.splits)

theorem simulate_errors_by_draws_witness:
  "simulate_errors quiet_env (list_entities ''smart_city'' ''traffic_sensors'') initial_state
     = list_entities ''smart_city'' ''traffic_sensors'' initial_state
   \<and> simulate_errors (fault_env ''rate_limit'' (Finite 2) (Finite (3 / 2)))
        (list_entities ''smart_city'' ''traffic_sensors'') initial_state
     = (abort 429 ''Rate limit exceeded. Try again later.'', initial_state)
   \<and> simulate_errors (fault_env ''server_error'' (Finite 2) (Finite (3 / 2)))
        (list_entities ''smart_city'' ''traffic_sensors'') initial_state
     = (abort 500 ''Internal server error occurred'', initial_state)
   \<and> simulate_errors (fault_env ''validation_error'' (Finite 2) (Finite (3 / 2)))
        (list_entities ''smart_city'' ''traffic_sensors'') initial_state
     = (abort 422 ''Invalid data format or content'', initial_state)
   \<and> simulate_errors (fault_env ''timeout'' (Finite 2) (Finite (3 / 2)))
        (list_entities ''smart_city'' ''traffic_sensors'') initial_state
     = list_entities ''smart_city'' ''traffic_sensors''
         (initial_state\<lparr>slept := slept initial_state @ [3 / 2]\<rparr>)
   \<and> simulate_errors (quiet_env\<lparr>get_config := None\<rparr>)
        (list_entities ''smart_city'' ''traffic_sensors'') initial_state
     = (Inl (Unhandled ValueError), initial_state)"
  using
    simulate_errors_by_draws [of quiet_env
      "list_entities ''smart_city'' ''traffic_sensors''" initial_state]
    simulate_errors_by_draws [of "fault_env ''rate_limit'' (Finite 2) (Finite (3 / 2))"
      "list_entities ''smart_city'' ''traffic_sensors''" initial_state]
    simulate_errors_by_draws [of "fault_env ''server_error'' (Finite 2) (Finite (3 / 2))"
      "list_entities ''smart_city'' ''traffic_sensors''" initial_state]
    simulate_errors_by_draws [of "fault_env ''validation_error'' (Finite 2) (Finite (3 / 2))"
      "list_entities ''smart_city'' ''traffic_sensors''" initial_state]
    simulate_errors_by_draws [of "fault_env ''timeout'' (Finite 2) (Finite (3 / 2))"
      "list_entities ''smart_city'' ''traffic_sensors''" initial_state]
    simulate_errors_by_draws [of "quiet_env\<lparr>get_config := None\<rparr>"
      "list_entities ''smart_city'' ''traffic_sensors''" initial_state]
  by (simp add: fault_env_def quiet_env_def)

subsection \<open>The error-test endpoint\<close>

text \<open>
  C8: \<open>test_errors\<close> depends on the query argument alone; it takes no configuration and
  no random draw. \<open>rate_limit\<close> gives 429, \<open>server_error\<close> 500, \<open>validation_error\<close> 422,
  each with its message; \<open>timeout\<close> sleeps 3 seconds and answers 200; an absent argument
  or one that is none of the four kinds answers 200 with the catalog of kinds and
  descriptions.
\<close>

theorem test_errors_deterministic:
  "test_errors (Some ''rate_limit'') s = (abort 429 ''Rate limit exceeded. Try again later.'', s)
   \<and> test_errors (Some ''server_error'') s = (abort 500 ''Internal server error occurred'', s)
   \<and> test_errors (Some ''validation_error'') s = (abort 422 ''Invalid data format or content'', s)
   \<and> test_errors (Some ''timeout'') s
         = (Inr (200, JObj [(''message'', JStr ''Response after timeout'')]), s\<lparr>slept := slept s @ [3]\<rparr>)
   \<and> (arg = None
        \<or> (\<exists>t. arg = Some t
              \<and> t \<notin> {''timeout'', ''rate_limit'', ''server_error'', ''validation_error''}) \<longrightarrow>
        test_errors arg s = (Inr (200, catalog), s))"
proof (intro conjI impI)
  show "test_errors (Some ''rate_limit'') s
          = (abort 429 ''Rate limit exceeded. Try again later.'', s)"
    by (simp add: test_errors_def ERROR_TYPES_def)
  show "test_errors (Some ''server_error'') s = (abort 500 ''Internal server error occurred'', s)"
    by (simp add: test_errors_def ERROR_TYPES_def)
  show "test_errors (Some ''validation_error'') s
          = (abort 422 ''Invalid data format or content'', s)"
    by (simp add: test_errors_def ERROR_TYPES_def)
  show "test_errors (Some ''timeout'') s
          = (Inr (200, JObj [(''message'', JStr ''Response after timeout'')]),
             s\<lparr>slept := slept s @ [3]\<rparr>)"
    by (simp add: test_errors_def ERROR_TYPES_def sleep_def)
next
  assume "arg = None
        \<or> (\<exists>t. arg = Some t
              \<and> t \<notin> {''timeout'', ''rate_limit'', ''server_error'', ''validation_error''})"
  then show "test_errors arg s = (Inr (200, catalog), s)"
  proof
    assume "arg = None"
    then show ?thesis by (simp add: test_errors_def ERROR_TYPES_def catalog_def)
  next
    assume "\<exists>t. arg = Some t
              \<and> t \<notin> {''timeout'', ''rate_limit'', ''server_error'', ''validation_error''}"
    then obtain t where t: "arg = Some t"
      "t \<notin> {''timeout'', ''rate_limit'', ''server_error'', ''validation_error''}" by blast
    have "t \<notin> set (map fst ERROR_TYPES)" using t(2) by (simp add: ERROR_TYPES_def)
    then show ?thesis using t(1) by (simp add: test_errors_def catalog_def) (simp add: ERROR_TYPES_def)
  qed
qed

theorem test_errors_deterministic_witness:
  "test_errors None initial_state = (Inr (200, catalog), initial_state)
   \<and> test_errors (Some ''teapot'') initial_state = (Inr (200, catalog), initial_state)
   \<and> test_errors (Some []) initial_state = (Inr (200, catalog), initial_state)
   \<and> status_code (fst (test_errors (Some ''rate_limit'') initial_state)) = 429"
  using test_errors_deterministic [of initial_state None]
    test_errors_deterministic [of initial_state "Some ''teapot''"]
    test_errors_deterministic [of initial_state "Some []"]
  by simp

subsection \<open>Errors leave the store alone\<close>

lemma data_store_sleep [simp]: "data_store (sleep d s) = data_store s"
  by (simp add: sleep_def)







lemmas scenario_defs =
  route_def token_required_def simulate_errors_def authorized_def quiet_env_def
  initial_state_def init_sample_data_def empty_store_def THEMES_def lookup2_def store2_def

lemma valid_targetD:
  "valid_target theme_id entity_type \<Longrightarrow>
     \<exists>info. map_of THEMES theme_id = Some info \<and> entity_type \<in> set (entities info)"
  by (simp add: valid_target_def split: option.splits)



subsection \<open>Empty JSON objects\<close>

text \<open>
  C10: on a valid theme and entity type, a create or update whose body is absent,
  unparsable or parses to the empty object is answered 400 \<open>Invalid JSON data\<close>, the
  state unchanged; and when create answers 400 with the message listing missing required
  fields, the body was present, truthy and not the empty object.
\<close>

theorem empty_object_is_invalid_json:
  assumes "valid_target theme_id entity_type"
  shows "(json_body req = None \<or> json_body req = Some (JObj []) \<longrightarrow>
            create_entity req ev theme_id entity_type s = (abort 400 ''Invalid JSON data'', s)
            \<and> update_entity req ev theme_id entity_type entity_id s
                = (abort 400 ''Invalid JSON data'', s))
       \<and> (\<forall>m. fst (create_entity req ev theme_id entity_type s)
                 = abort 400 (''Missing required fields: '' @ m) \<longrightarrow>
            (\<exists>data. json_body req = Some data \<and> truthy data \<and> data \<noteq> JObj []))"
proof -
  from valid_targetD [OF assms] obtain info where
    info: "map_of THEMES theme_id = Some info" "entity_type \<in> set (entities info)" by blast
  have a: "json_body req = None \<or> json_body req = Some (JObj []) \<longrightarrow>
            create_entity req ev theme_id entity_type s = (abort 400 ''Invalid JSON data'', s)
            \<and> update_entity req ev theme_id entity_type entity_id s
                = (abort 400 ''Invalid JSON data'', s)"
    using info by (auto simp: create_entity_def update_entity_def)
  have b: "\<exists>data. json_body req = Some data \<and> truthy data \<and> data \<noteq> JObj []"
    if "fst (create_entity req ev theme_id entity_type s)
          = abort 400 (''Missing required fields: '' @ m)" for m
  proof (cases "json_body req")
    case None
    with that info show ?thesis by (simp add: create_entity_def abort_def)
  next
    case (Some data)
    show ?thesis
    proof (cases "truthy data")
      case False
      with that info Some show ?thesis by (simp add: create_entity_def abort_def)
    next
      case True
      then have "data \<noteq> JObj []" by auto
      with True Some show ?thesis by simp
    qed
  qed
  from a b show ?thesis by blast
qed

theorem empty_object_is_invalid_json_witness:
  "valid_target ''fantasy_rpg'' ''items''
   \<and> create_entity (authorized (Some (JObj []))) quiet_env ''fantasy_rpg'' ''items'' initial_state
       = (abort 400 ''Invalid JSON data'', initial_state)
   \<and> update_entity (authorized (Some (JObj []))) quiet_env ''fantasy_rpg'' ''items'' ''1''
        initial_state
       = (abort 400 ''Invalid JSON data'', initial_state)
   \<and> fst (create_entity (authorized (Some (JObj [(''name'', JStr ''X'')]))) quiet_env
            ''fantasy_rpg'' ''items'' initial_state)
       = abort 400 (''Missing required fields: '' @ ''description'')
   \<and> truthy (JObj [(''name'', JStr ''X'')])"
proof -
  have h: "valid_target ''fantasy_rpg'' ''items''"
    by (simp add: valid_target_def THEMES_def)
  have m: "fst (create_entity (authorized (Some (JObj [(''name'', JStr ''X'')]))) quiet_env
            ''fantasy_rpg'' ''items'' initial_state)
       = abort 400 (''Missing required fields: '' @ ''description'')"
    by (simp add: create_entity_def THEMES_def authorized_def required_fields_def
          missing_fields_def)
  show ?thesis
    using h m
      empty_object_is_invalid_json [OF h, of "authorized (Some (JObj []))" quiet_env
        initial_state "''1''"]
      empty_object_is_invalid_json [OF h, of "authorized (Some (JObj [(''name'', JStr ''X'')]))"
        quiet_env initial_state "''1''"]
    by (simp add: authorized_def)
qed

subsection \<open>Dicts, the scan for an id, and the store\<close>

lemma map_of_dict_set: "map_of (dict_set d k v) = (map_of d)(k \<mapsto> v)"
  by (induction d k v rule: dict_set.induct) (auto simp: fun_eq_iff)

lemma map_of_dict_merge:
  "map_of (dict_merge d e) k = (case map_of (rev e) k of Some v \<Rightarrow> Some v | None \<Rightarrow> map_of d k)"
proof (induction d e rule: dict_merge.induct)
  case (1 d)
  show ?case by simp
next
  case (2 d k' v' e)
  show ?case
    by (simp add: 2 map_of_dict_set map_add_def split: option.splits)
qed

lemma find_entity_found:
  "find_entity coll entity_id n = Inr (Some (i, entity)) \<Longrightarrow>
     n \<le> i \<and> i - n < length coll \<and> coll ! (i - n) = entity
     \<and> map_of entity ''id'' = Some (JStr entity_id)
     \<and> (\<forall>j < i - n. map_of (coll ! j) ''id'' \<noteq> Some (JStr entity_id))"
proof (induction coll arbitrary: n)
  case Nil
  then show ?case by simp
next
  case (Cons e rest)
  show ?case
  proof (cases "map_of e ''id'' = Some (JStr entity_id)")
    case True
    with Cons.prems show ?thesis by simp
  next
    case False
    with Cons.prems have r: "find_entity rest entity_id (Suc n) = Inr (Some (i, entity))"
      by (simp split: option.splits)
    from Cons.IH [OF r] have ih: "Suc n \<le> i" "i - Suc n < length rest"
      "rest ! (i - Suc n) = entity" "map_of entity ''id'' = Some (JStr entity_id)"
      "\<forall>j < i - Suc n. map_of (rest ! j) ''id'' \<noteq> Some (JStr entity_id)" by simp_all
    from ih(1) have eq: "i - n = Suc (i - Suc n)" by simp
    have "\<forall>j < i - n. map_of ((e # rest) ! j) ''id'' \<noteq> Some (JStr entity_id)"
    proof (intro allI impI)
      fix j assume "j < i - n"
      then show "map_of ((e # rest) ! j) ''id'' \<noteq> Some (JStr entity_id)"
        using False ih(5) eq by (cases j) auto
    qed
    with ih eq show ?thesis by simp
  qed
qed

lemma lookup2_store2:
  "lookup2 st theme_id entity_type = Some coll \<Longrightarrow>
     lookup2 (store2 st theme_id entity_type coll') t e =
       (if t = theme_id \<and> e = entity_type then Some coll' else lookup2 st t e)"
  by (auto simp: lookup2_def store2_def split: option.splits)

lemma find_entity_bounds:
  "find_entity coll entity_id 0 = Inr (Some (i, entity)) \<Longrightarrow>
     i < length coll \<and> coll ! i = entity \<and> map_of entity ''id'' = Some (JStr entity_id)
     \<and> (\<forall>j < i. map_of (coll ! j) ''id'' \<noteq> Some (JStr entity_id))"
  using find_entity_found [of coll entity_id 0 i entity] by simp

subsection \<open>Update\<close>

text \<open>
  C5: when \<open>update_entity\<close> succeeds, the body was a JSON object and the record found is
  the first one of the collection whose \<open>id\<close> is the id of the request. The record
  returned, whatever the body contains, has the \<open>id\<close> and the \<open>created_at\<close> of the old
  record and \<open>updated_at\<close> set to the clock; every other key has the value of the body if
  the body has the key (the last one given, should a key occur twice) and the old value
  otherwise. It replaces the old record at its index; no other collection and no sleep is
  touched.
\<close>

theorem update_entity_preserves:
  assumes "update_entity req ev theme_id entity_type entity_id s = (Inr (code, body), s')"
  shows "\<exists>coll i old pairs updated.
           lookup2 (data_store s) theme_id entity_type = Some coll
         \<and> json_body req = Some (JObj pairs)
         \<and> i < length coll \<and> coll ! i = old
         \<and> map_of old ''id'' = Some (JStr entity_id)
         \<and> (\<forall>j < i. map_of (coll ! j) ''id'' \<noteq> Some (JStr entity_id))
         \<and> code = 200 \<and> body = JObj updated
         \<and> map_of updated ''id'' = map_of old ''id''
         \<and> map_of updated ''created_at'' = map_of old ''created_at''
         \<and> map_of old ''created_at'' \<noteq> None
         \<and> map_of updated ''updated_at'' = Some (JStr (clock ev))
         \<and> (\<forall>k. k \<notin> {''id'', ''created_at'', ''updated_at''} \<longrightarrow>
               map_of updated k =
                 (case map_of (rev pairs) k of Some v \<Rightarrow> Some v | None \<Rightarrow> map_of old k))
         \<and> lookup2 (data_store s') theme_id entity_type = Some (coll[i := updated])
         \<and> (\<forall>t e. (t, e) \<noteq> (theme_id, entity_type) \<longrightarrow>
               lookup2 (data_store s') t e = lookup2 (data_store s) t e)
         \<and> slept s' = slept s"
proof -
  from assms obtain info data coll i old pairs created where
    f: "map_of THEMES theme_id = Some info" "entity_type \<in> set (entities info)"
       "json_body req = Some data" "truthy data"
       "lookup2 (data_store s) theme_id entity_type = Some coll"
       "find_entity coll entity_id 0 = Inr (Some (i, old))"
       "data = JObj pairs" "map_of old ''created_at'' = Some created"
    by (auto simp: update_entity_def abort_def Let_def
          split: option.splits sum.splits prod.splits json.splits if_splits)
  define updated where "updated =
     dict_set (dict_set (dict_set (dict_merge old pairs)
        ''id'' (JStr entity_id)) ''created_at'' created) ''updated_at'' (JStr (clock ev))"
  from assms f have res: "code = 200" "body = JObj updated"
    "s' = s\<lparr>data_store := store2 (data_store s) theme_id entity_type (coll[i := updated])\<rparr>"
    by (auto simp: update_entity_def Let_def updated_def)
  from find_entity_found [OF f(6)] have fe: "i < length coll" "coll ! i = old"
    "map_of old ''id'' = Some (JStr entity_id)"
    "\<forall>j < i. map_of (coll ! j) ''id'' \<noteq> Some (JStr entity_id)" by simp_all
  have u1: "map_of updated ''id'' = map_of old ''id''"
    by (simp add: updated_def map_of_dict_set fe(3))
  have u2: "map_of updated ''created_at'' = map_of old ''created_at''"
    by (simp add: updated_def map_of_dict_set f(8))
  have u3: "map_of updated ''updated_at'' = Some (JStr (clock ev))"
    by (simp add: updated_def map_of_dict_set)
  have u4: "\<forall>k. k \<notin> {''id'', ''created_at'', ''updated_at''} \<longrightarrow>
               map_of updated k =
                 (case map_of (rev pairs) k of Some v \<Rightarrow> Some v | None \<Rightarrow> map_of old k)"
  proof (intro allI impI)
    fix k assume "k \<notin> {''id'', ''created_at'', ''updated_at''}"
    then have k: "k \<noteq> ''id''" "k \<noteq> ''created_at''" "k \<noteq> ''updated_at''" by auto
    show "map_of updated k =
                 (case map_of (rev pairs) k of Some v \<Rightarrow> Some v | None \<Rightarrow> map_of old k)"
      using k by (simp add: updated_def map_of_dict_set map_of_dict_merge)
  qed
  have l1: "lookup2 (data_store s') theme_id entity_type = Some (coll[i := updated])"
    by (simp add: res(3) lookup2_store2 [OF f(5)])
  have l2: "\<forall>t e. (t, e) \<noteq> (theme_id, entity_type) \<longrightarrow>
               lookup2 (data_store s') t e = lookup2 (data_store s) t e"
    by (auto simp: res(3) lookup2_store2 [OF f(5)])
  have l3: "slept s' = slept s" by (simp add: res(3))
  from f(5) f(3) f(7) fe res(1,2) u1 u2 f(8) u3 u4 l1 l2 l3 show ?thesis
    by (intro exI [of _ coll] exI [of _ i] exI [of _ old] exI [of _ pairs] exI [of _ updated])
       simp
qed

theorem update_entity_preserves_witness:
  "fst (update_entity
        (authorized (Some (JObj [(''name'', JStr ''Z''), (''id'', JStr ''999''),
                              (''created_at'', JStr ''1999-01-01 00:00:00''),
                              (''updated_at'', JStr ''never'')])))
        quiet_env ''space_exploration'' ''missions'' ''1'' initial_state)
     = Inr (200, JObj [(''id'', JStr ''1''), (''name'', JStr ''Z''),
                      (''description'', JStr ''Explore the surface of Mars''),
                      (''status'', JStr ''in-progress''),
                      (''created_at'', JStr ''2023-01-15 10:30:00''),
                      (''updated_at'', JStr ''2024-01-01 00:00:00'')])
   \<and> slept (snd (update_entity
        (authorized (Some (JObj [(''name'', JStr ''Z''), (''id'', JStr ''999''),
                              (''created_at'', JStr ''1999-01-01 00:00:00''),
                              (''updated_at'', JStr ''never'')])))
        quiet_env ''space_exploration'' ''missions'' ''1'' initial_state)) = slept initial_state
   \<and> lookup2 (data_store (snd (update_entity
        (authorized (Some (JObj [(''name'', JStr ''Z''), (''id'', JStr ''999''),
                              (''created_at'', JStr ''1999-01-01 00:00:00''),
                              (''updated_at'', JStr ''never'')])))
        quiet_env ''space_exploration'' ''missions'' ''1'' initial_state))) ''fantasy_rpg'' ''quests''
       = lookup2 (data_store initial_state) ''fantasy_rpg'' ''quests''"
proof -
  define rq where "rq = authorized (Some (JObj [(''name'', JStr ''Z''), (''id'', JStr ''999''),
                              (''created_at'', JStr ''1999-01-01 00:00:00''),
                              (''updated_at'', JStr ''never'')]))"
  define body where "body = JObj [(''id'', JStr ''1''), (''name'', JStr ''Z''),
                      (''description'', JStr ''Explore the surface of Mars''),
                      (''status'', JStr ''in-progress''),
                      (''created_at'', JStr ''2023-01-15 10:30:00''),
                      (''updated_at'', JStr ''2024-01-01 00:00:00'')]"
  define s' where
    "s' = snd (update_entity rq quiet_env ''space_exploration'' ''missions'' ''1'' initial_state)"
  have f: "fst (update_entity rq quiet_env ''space_exploration'' ''missions'' ''1'' initial_state)
             = Inr (200, body)"
    by (simp add: rq_def body_def update_entity_def scenario_defs Let_def)
  have h: "update_entity rq quiet_env ''space_exploration'' ''missions'' ''1'' initial_state
             = (Inr (200, body), s')"
    using f by (simp add: prod_eq_iff s'_def)
  from update_entity_preserves [OF h] obtain coll i old pairs updated where
    others: "\<forall>t e. (t, e) \<noteq> (''space_exploration'', ''missions'') \<longrightarrow>
               lookup2 (data_store s') t e = lookup2 (data_store initial_state) t e"
    and sl: "slept s' = slept initial_state"
    by (elim exE conjE)
  from others have q: "lookup2 (data_store s') ''fantasy_rpg'' ''quests''
       = lookup2 (data_store initial_state) ''fantasy_rpg'' ''quests''"
    by simp
  from f sl q show ?thesis
    unfolding rq_def body_def s'_def by (intro conjI)
qed

subsection \<open>Create and delete\<close>

text \<open>
  What a successful create stores: the record is appended to the collection; its
  \<open>created_at\<close> is the clock; its \<open>id\<close> is the decimal string of the collection's length
  plus one only if the body has no key \<open>id\<close>, and the body's value otherwise.
\<close>

lemma create_entity_stores:
  assumes "create_entity req ev theme_id entity_type s = (Inr (code, body), s')"
  shows "\<exists>coll pairs new_entity.
           lookup2 (data_store s) theme_id entity_type = Some coll
         \<and> json_body req = Some (JObj pairs)
         \<and> code = 201 \<and> body = JObj new_entity
         \<and> map_of new_entity ''id'' =
             (case map_of (rev pairs) ''id'' of
                Some v \<Rightarrow> Some v
              | None \<Rightarrow> Some (JStr (str (length coll + 1))))
         \<and> map_of new_entity ''created_at'' = Some (JStr (clock ev))
         \<and> (\<forall>k. k \<notin> {''id'', ''created_at''} \<longrightarrow> map_of new_entity k = map_of (rev pairs) k)
         \<and> lookup2 (data_store s') theme_id entity_type = Some (coll @ [new_entity])"
proof -
  from assms obtain coll pairs where
    f: "lookup2 (data_store s) theme_id entity_type = Some coll"
       "json_body req = Some (JObj pairs)"
    by (auto simp: create_entity_def abort_def Let_def
          split: option.splits sum.splits bool.splits json.splits if_splits)
  define new_entity where "new_entity =
     dict_set (dict_merge (dict_set [] ''id'' (JStr (str (length coll + 1)))) pairs)
       ''created_at'' (JStr (clock ev))"
  from assms f have res: "code = 201" "body = JObj new_entity"
    "s' = s\<lparr>data_store := store2 (data_store s) theme_id entity_type (coll @ [new_entity])\<rparr>"
    by (auto simp: create_entity_def abort_def Let_def new_entity_def
          split: option.splits sum.splits bool.splits if_splits)
  have n1: "map_of new_entity ''id'' =
             (case map_of (rev pairs) ''id'' of
                Some v \<Rightarrow> Some v
              | None \<Rightarrow> Some (JStr (str (length coll + 1))))"
    by (simp add: new_entity_def map_of_dict_set map_of_dict_merge split: option.splits)
  have n2: "map_of new_entity ''created_at'' = Some (JStr (clock ev))"
    by (simp add: new_entity_def map_of_dict_set)
  have n3: "\<forall>k. k \<notin> {''id'', ''created_at''} \<longrightarrow> map_of new_entity k = map_of (rev pairs) k"
    by (auto simp: new_entity_def map_of_dict_set map_of_dict_merge split: option.splits)
  have l1: "lookup2 (data_store s') theme_id entity_type = Some (coll @ [new_entity])"
    by (simp add: res(3) lookup2_store2 [OF f(1)])
  from f res(1,2) n1 n2 n3 l1 show ?thesis
    by (intro exI [of _ coll] exI [of _ pairs] exI [of _ new_entity]) simp
qed

text \<open>
  What a successful delete does: it removes the first record with the id, the other
  records keep their order, and the collection is shorter by one.
\<close>

lemma delete_entity_removes_one:
  assumes "delete_entity theme_id entity_type entity_id s = (Inr (code, body), s')"
  shows "\<exists>coll i.
           lookup2 (data_store s) theme_id entity_type = Some coll
         \<and> i < length coll
         \<and> map_of (coll ! i) ''id'' = Some (JStr entity_id)
         \<and> (\<forall>j < i. map_of (coll ! j) ''id'' \<noteq> Some (JStr entity_id))
         \<and> code = 200
         \<and> lookup2 (data_store s') theme_id entity_type = Some (take i coll @ drop (Suc i) coll)
         \<and> length (take i coll @ drop (Suc i) coll) + 1 = length coll
         \<and> (\<forall>t e. (t, e) \<noteq> (theme_id, entity_type) \<longrightarrow>
               lookup2 (data_store s') t e = lookup2 (data_store s) t e)"
proof -
  from assms obtain coll i deleted where
    f: "lookup2 (data_store s) theme_id entity_type = Some coll"
       "find_entity coll entity_id 0 = Inr (Some (i, deleted))"
    by (auto simp: delete_entity_def abort_def
          split: option.splits sum.splits prod.splits if_splits)
  from assms f have res: "code = 200"
    "s' = s\<lparr>data_store :=
             store2 (data_store s) theme_id entity_type (take i coll @ drop (Suc i) coll)\<rparr>"
    by (auto simp: delete_entity_def abort_def split: option.splits if_splits)
  from find_entity_bounds [OF f(2)] have fe: "i < length coll"
    "map_of (coll ! i) ''id'' = Some (JStr entity_id)"
    "\<forall>j < i. map_of (coll ! j) ''id'' \<noteq> Some (JStr entity_id)" by simp_all
  have len: "length (take i coll @ drop (Suc i) coll) + 1 = length coll"
    using fe(1) by simp
  have l1: "lookup2 (data_store s') theme_id entity_type
              = Some (take i coll @ drop (Suc i) coll)"
    by (simp add: res(2) lookup2_store2 [OF f(1)])
  have l2: "\<forall>t e. (t, e) \<noteq> (theme_id, entity_type) \<longrightarrow>
               lookup2 (data_store s') t e = lookup2 (data_store s) t e"
    by (auto simp: res(2) lookup2_store2 [OF f(1)])
  from f(1) fe res(1) l1 len l2 show ?thesis
    by (intro exI [of _ coll] exI [of _ i]) simp
qed

text \<open>
  In a collection whose records all have an id and no id twice, the get that follows a
  successful delete of an id is answered 404.
\<close>

lemma find_entity_absent:
  "\<forall>entity \<in> set coll. map_of entity ''id'' \<noteq> None
      \<and> map_of entity ''id'' \<noteq> Some (JStr entity_id) \<Longrightarrow>
   find_entity coll entity_id n = Inr None"
  by (induction coll arbitrary: n) (auto split: option.splits)

lemma get_after_delete_unique:
  assumes del: "delete_entity theme_id entity_type entity_id s = (Inr (code, body), s')"
    and coll: "lookup2 (data_store s) theme_id entity_type = Some coll"
    and ids: "\<forall>entity \<in> set coll. map_of entity ''id'' \<noteq> None"
    and uniq: "distinct (map (\<lambda>entity. map_of entity ''id'') coll)"
  shows "get_entity theme_id entity_type entity_id s' = (abort 404 (entity_not_found entity_id), s')"
proof -
  from del obtain info where
    info: "map_of THEMES theme_id = Some info" "entity_type \<in> set (entities info)"
    by (auto simp: delete_entity_def abort_def split: option.splits if_splits)
  from delete_entity_removes_one [OF del] coll obtain i where
    i: "i < length coll" "map_of (coll ! i) ''id'' = Some (JStr entity_id)"
       "lookup2 (data_store s') theme_id entity_type = Some (take i coll @ drop (Suc i) coll)"
    by auto
  have "map_of entity ''id'' \<noteq> Some (JStr entity_id)"
    if "entity \<in> set (take i coll @ drop (Suc i) coll)" for entity
  proof -
    from that consider "entity \<in> set (take i coll)" | "entity \<in> set (drop (Suc i) coll)"
      by auto
    then obtain j where j: "j < length coll" "j \<noteq> i" "coll ! j = entity"
    proof cases
      case 1
      then obtain k where "k < length (take i coll)" "take i coll ! k = entity"
        by (auto simp: in_set_conv_nth)
      then have "k < length coll" "k \<noteq> i" "coll ! k = entity" by simp_all
      then show ?thesis by (rule that)
    next
      case 2
      then obtain k where k: "k < length (drop (Suc i) coll)" "drop (Suc i) coll ! k = entity"
        by (auto simp: in_set_conv_nth)
      then have "Suc i + k < length coll" "Suc i + k \<noteq> i" "coll ! (Suc i + k) = entity"
        by simp_all
      then show ?thesis by (rule that)
    qed
    from uniq j(1,2) i(1) have "map_of (coll ! j) ''id'' \<noteq> map_of (coll ! i) ''id''"
      by (simp add: distinct_conv_nth)
    with j(3) i(2) show ?thesis by simp
  qed
  moreover have "map_of entity ''id'' \<noteq> None"
    if "entity \<in> set (take i coll @ drop (Suc i) coll)" for entity
    using that ids by (auto dest: in_set_takeD in_set_dropD)
  ultimately have "find_entity (take i coll @ drop (Suc i) coll) entity_id 0 = Inr None"
    by (intro find_entity_absent) blast
  with info i(3) show ?thesis by (simp add: get_entity_def)
qed

text \<open>
  C3 fails for a body that carries an \<open>id\<close>: in \<open>{"id": ..., **data, "created_at": ...}\<close>
  the computed id comes before the body's items, so the body's value replaces it. Created
  in the empty collection items of fantasy_rpg with the body
  \<open>{"name": "X", "description": "Y", "id": "999"}\<close>, the record has the id 999, where the
  claim says 1.
\<close>

theorem create_keeps_caller_id:
  "fst (route POST_create
            (authorized (Some (JObj [(''name'', JStr ''X''), (''description'', JStr ''Y''),
                                     (''id'', JStr ''999'')])))
            quiet_env ''fantasy_rpg'' ''items'' initial_state)
     = Inr (201, JObj [(''id'', JStr ''999''), (''name'', JStr ''X''),
                       (''description'', JStr ''Y''),
                       (''created_at'', JStr ''2024-01-01 00:00:00'')])
   \<and> lookup2 (data_store initial_state) ''fantasy_rpg'' ''items'' = Some []
   \<and> str (length ([] :: entity list) + 1) = ''1''"
  by (simp add: scenario_defs create_entity_def
        required_fields_def str.simps digit_def Let_def)

text \<open>
  C2 fails after a delete followed by a create: the new id is the collection's length
  plus one, which is the id of a record that is still there. On the seeded missions,
  deleting mission 1 and creating a mission leaves two records with the id 2.
\<close>

theorem duplicate_id_after_delete_and_create:
  "lookup2 (data_store after_create) ''space_exploration'' ''missions'' =
     Some [[(''id'', JStr ''2''), (''name'', JStr ''Jupiter Orbital''),
            (''description'', JStr (''Study Jupiter'' @ quote @ ''s atmosphere'')),
            (''status'', JStr ''planned''),
            (''created_at'', JStr ''2023-02-20 14:45:00'')],
           [(''id'', JStr ''2''), (''name'', JStr ''Europa Lander''),
            (''description'', JStr ''Land on Europa''),
            (''created_at'', JStr ''2024-01-01 00:00:00'')]]"
  by (simp add: after_create_def after_delete_1_def scenario_defs delete_entity_def create_entity_def
        required_fields_def str.simps digit_def Let_def)

text \<open>
  C4 fails in a collection that holds an id twice, which the run above produces: deleting
  id 2 succeeds and removes the first of the two records, and the get of id 2 that follows
  is answered 200 with the record that remains, where the claim says 404.
\<close>

theorem get_after_delete_still_found:
  "status_code (fst (route (DELETE_entity ''2'') (authorized None) quiet_env
            ''space_exploration'' ''missions'' after_create)) = 200
   \<and> status_code (fst (route (GET_entity ''2'') (authorized None) quiet_env
            ''space_exploration'' ''missions'' after_delete_2)) = 200"
  by (simp add: after_delete_2_def after_create_def after_delete_1_def scenario_defs
        delete_entity_def create_entity_def get_entity_def
        required_fields_def str.simps digit_def Let_def)

end
